theory Spec2Isabelle
  imports Main "HOL-Library.Sublist"
begin

section \<open>The trade client of cw-sdk-go (cmd/trade-client/main.go)\<close>

text \<open>
  The program is a command-line client: it validates its arguments, builds a trade
  client (the collaborator, package \<open>websocket\<close>, which is not part of the modelled
  sources), starts the goroutine \<open>run\<close>, waits in a \<open>select\<close> for an operator signal
  or for a value on \<open>errChan\<close>, closes the connection and ends.

  Everything the collaborator, the operating system and the Go scheduler decide is an
  input of the model: the answers of the collaborator's calls, the order of the
  callbacks, and the case a \<open>select\<close> takes when several can proceed.
\<close>

subsection \<open>Errors\<close>

text \<open>
  A Go \<open>error\<close> value is \<open>nil\<close> or an error; the model uses \<open>error option\<close> with
  \<open>None\<close> for \<open>nil\<close>. \<open>errUnknownMode\<close> is the package variable of line 23, compared
  by identity in \<open>main\<close>; \<open>ErrorsNew\<close> is a fresh \<open>errors.New\<close> value; \<open>ContextCanceled\<close>
  is what \<open>ctx.Err()\<close> returns once the context is cancelled; \<open>External\<close> is an error
  handed over by the collaborator or by package \<open>config\<close>, kept by its text.
\<close>

datatype error = errUnknownMode | ErrorsNew string | ContextCanceled | External string

fun Error :: "error \<Rightarrow> string" where
  "Error errUnknownMode = ''unknown mode''"
| "Error (ErrorsNew s) = s"
| "Error ContextCanceled = ''context canceled''"
| "Error (External s) = s"

subsection \<open>Command-line arguments\<close>

record cliArgs =
  Verbose :: bool
  Mode :: string
  MarketID :: int
  ExchAPIKey :: string
  ExchSecretKey :: string
  OrderID :: string

definition checkCliArgs :: "cliArgs \<Rightarrow> error option" where
  "checkCliArgs a =
     (if Mode a = '''' then Some (ErrorsNew ''mode is not specified'')
      else if Mode a \<noteq> ''place'' \<and> Mode a \<noteq> ''cancel'' \<and> Mode a \<noteq> ''list''
              \<and> Mode a \<noteq> ''balances'' then Some errUnknownMode
      else if MarketID a = 0 then Some (ErrorsNew ''marketid is empty'')
      else if Mode a = ''cancel'' \<and> OrderID a = '''' then Some (ErrorsNew ''orderid is empty'')
      else None)"

subsection \<open>The global logger\<close>

text \<open>
  Package \<open>log\<close> keeps one global logger. The model keeps its flags and the lines
  written so far, each with the flags in force when it was written (the flags decide
  the date and time prefix of the line). \<open>LstdFlags\<close> is the initial value.
\<close>

record logger =
  logFlags :: int
  logged :: "(int \<times> string) list"

definition LstdFlags :: int where
  "LstdFlags = 3"

definition std :: logger where
  "std = \<lparr>logFlags = LstdFlags, logged = []\<rparr>"

definition log_Print :: "string \<Rightarrow> logger \<Rightarrow> logger" where
  "log_Print s lg = lg\<lparr>logged := logged lg @ [(logFlags lg, s)]\<rparr>"

definition log_Flags :: "logger \<Rightarrow> int" where
  "log_Flags lg = logFlags lg"

definition log_SetFlags :: "int \<Rightarrow> logger \<Rightarrow> logger" where
  "log_SetFlags f lg = lg\<lparr>logFlags := f\<rparr>"

text \<open>How \<open>Println\<close> prints a slice of strings: the elements between brackets.\<close>

fun join_sp :: "string list \<Rightarrow> string" where
  "join_sp [] = []"
| "join_sp [x] = x"
| "join_sp (x # y # ys) = x @ '' '' @ join_sp (y # ys)"

definition show_strings :: "string list \<Rightarrow> string" where
  "show_strings xs = ''['' @ join_sp xs @ '']''"

text \<open>\<open>%s\<close> of an error value: its text, and Go's marker for \<open>nil\<close>.\<close>

definition fmt_s :: "error option \<Rightarrow> string" where
  "fmt_s e = (case e of None \<Rightarrow> ''%!s(<nil>)'' | Some err \<Rightarrow> Error err)"

subsection \<open>Channels\<close>

text \<open>
  A Go channel is its capacity, its buffer and the queue of senders that are blocked on
  it, each with the value it wants to send. A send puts the value into the buffer
  when there is room and otherwise blocks: the sender joins the queue. A
  receive takes the head of the buffer and moves the first blocked sender's value into
  the buffer; on an empty buffer it takes the value of the first blocked sender (the
  unbuffered case); with neither it cannot proceed (\<open>None\<close>).
\<close>

datatype 'a chan = Chan (cap: nat) (buf: "'a list") (sendq: "'a list")

definition make_chan :: "nat \<Rightarrow> 'a chan" where
  "make_chan c = Chan c [] []"

definition chan_send :: "'a \<Rightarrow> 'a chan \<Rightarrow> 'a chan" where
  "chan_send v ch =
     (if length (buf ch) < cap ch then Chan (cap ch) (buf ch @ [v]) (sendq ch)
      else Chan (cap ch) (buf ch) (sendq ch @ [v]))"

definition chan_recv :: "'a chan \<Rightarrow> ('a \<times> 'a chan) option" where
  "chan_recv ch =
     (case buf ch of
        v # rest \<Rightarrow> Some (v, Chan (cap ch) (rest @ take 1 (sendq ch)) (drop 1 (sendq ch)))
      | [] \<Rightarrow> (case sendq ch of
                 v # q \<Rightarrow> Some (v, Chan (cap ch) [] q)
               | [] \<Rightarrow> None))"

definition can_recv :: "'a chan \<Rightarrow> bool" where
  "can_recv ch = (chan_recv ch \<noteq> None)"

text \<open>
  \<open>signal.Notify\<close> never blocks: a signal that finds the buffer of the channel full is
  dropped.
\<close>

definition chan_offer :: "'a \<Rightarrow> 'a chan \<Rightarrow> 'a chan" where
  "chan_offer v ch =
     (if length (buf ch) < cap ch then Chan (cap ch) (buf ch @ [v]) (sendq ch) else ch)"

text \<open>
  A \<open>select\<close> statement: of the cases that can proceed it takes one, chosen by the
  runtime (the number \<open>pick\<close>); when none can proceed it waits (\<open>None\<close>). A
  goroutine that waits in a \<open>select\<close> evaluates it again at its next step. (The Go
  runtime resumes a waiting \<open>select\<close> with the first case that becomes able to
  proceed; the model allows that behaviour, with the step of the goroutine right
  after the event, and others.)
\<close>

definition go_select :: "'c list \<Rightarrow> nat \<Rightarrow> 'c option" where
  "go_select cs pick = (if cs = [] then None else Some (cs ! (pick mod length cs)))"

subsection \<open>The collaborator's types\<close>

text \<open>
  Packages \<open>common\<close> and \<open>websocket\<close> are outside the modelled sources. Their types are
  kept as far as main.go uses them: a market identifier is the converted integer; the
  enumerations have the constants main.go names and an unnamed rest; an order has its
  \<open>ID\<close> and the text \<open>Println\<close> prints for it; the balances are the text \<open>%v\<close> prints
  for them.
\<close>

datatype common_MarketID = common_MarketID int

datatype PriceParamType = AbsoluteValuePrice | OtherPriceParamType nat
datatype OrderSide = OrderSideBuy | OtherOrderSide nat
datatype OrderType = LimitOrder | OtherOrderType nat

record PriceParam =
  Type :: PriceParamType
  Value :: string

record PlaceOrderParams =
  PriceParams :: "PriceParam list"
  po_MarketID :: common_MarketID
  Amount :: string
  OrderSide :: OrderSide
  OrderType :: OrderType

record CancelOrderParams =
  co_MarketID :: common_MarketID
  co_OrderID :: string

record PrivateOrder =
  ID :: string
  printed :: string

type_synonym Balances = string

record WSParams =
  ws_APIKey :: string
  ws_SecretKey :: string
  URL :: string

record ExchangeAuth =
  ea_APIKey :: string
  ea_APISecret :: string

record TradeSessionParams =
  MarketParams_ID :: common_MarketID
  ExchangeAuth :: ExchangeAuth

record TradeClientParams =
  WSParams :: WSParams
  TradeSessions :: "TradeSessionParams list"

record CWConfig =
  APIKey :: string
  SecretKey :: string
  TradeURL :: string

text \<open>The calls the program makes on the collaborator, with their arguments.\<close>

datatype call =
    NewTradeClient TradeClientParams
  | Connect
  | GetOrders common_MarketID
  | GetBalances
  | PlaceOrder PlaceOrderParams
  | CancelOrder CancelOrderParams
  | Close

text \<open>The answers of the collaborator to the four trading calls.\<close>

record replies =
  ordersReply :: "error + PrivateOrder list"
  balancesReply :: "error + Balances"
  placeReply :: "error + PrivateOrder"
  cancelReply :: "error option"

subsection \<open>The application and its four commands\<close>

record TradeApp =
  marketID :: common_MarketID
  args :: cliArgs
  ready :: "unit chan"
  errChan :: "error option chan"

text \<open>
  Each command takes the collaborator's answer and the logger and returns the call it
  made, the logger and the error it returns (\<open>None\<close> for \<open>nil\<close>).
\<close>

definition list :: "TradeApp \<Rightarrow> error + PrivateOrder list \<Rightarrow> logger \<Rightarrow> call \<times> logger \<times> error option" where
  "list app reply lg =
     (let lg1 = log_Print ''Trading ready: getting orders...'' lg;
          c = GetOrders (marketID app)
      in case reply of
           Inl err \<Rightarrow> (c, lg1, Some err)
         | Inr orders \<Rightarrow>
             (let oids = map ID orders
              in (c, log_Print (''Orders: '' @ show_strings oids) lg1, None)))"

definition balances :: "TradeApp \<Rightarrow> error + Balances \<Rightarrow> logger \<Rightarrow> call \<times> logger \<times> error option" where
  "balances app reply lg =
     (let lg1 = log_Print ''Getting balances...'' lg
      in case reply of
           Inl err \<Rightarrow> (GetBalances, log_Print (''ERROR: GetBalances() '' @ Error err) lg1, Some err)
         | Inr result \<Rightarrow>
             (let lf = log_Flags lg1;
                  lg2 = log_SetFlags 0 lg1;
                  lg3 = log_Print (''balances='' @ result) lg2;
                  lg4 = log_SetFlags lf lg3;
                  lg5 = log_Print ''Balances: done'' lg4
              in (GetBalances, lg5, None)))"

definition place_params :: "TradeApp \<Rightarrow> PlaceOrderParams" where
  "place_params app =
     \<lparr>PriceParams = [\<lparr>Type = AbsoluteValuePrice, Value = ''0.01''\<rparr>],
      po_MarketID = marketID app,
      Amount = ''0.01'',
      OrderSide = OrderSideBuy,
      OrderType = LimitOrder\<rparr>"

definition place :: "TradeApp \<Rightarrow> error + PrivateOrder \<Rightarrow> logger \<Rightarrow> call \<times> logger \<times> error option" where
  "place app reply lg =
     (let lg1 = log_Print ''Trading ready: placing order...'' lg;
          c = PlaceOrder (place_params app)
      in case reply of
           Inl err \<Rightarrow> (c, lg1, Some err)
         | Inr order \<Rightarrow> (c, log_Print (''Order placed: '' @ printed order) lg1, None))"

definition cancel :: "TradeApp \<Rightarrow> error option \<Rightarrow> logger \<Rightarrow> call \<times> logger \<times> error option" where
  "cancel app reply lg =
     (let lg1 = log_Print ''Trading ready: canceling order...'' lg;
          c = CancelOrder \<lparr>co_MarketID = marketID app, co_OrderID = OrderID (args app)\<rparr>
      in case reply of
           Some err \<Rightarrow> (c, lg1, Some err)
         | None \<Rightarrow> (c, log_Print (''Order canceled: '' @ OrderID (args app)) lg1, None))"

text \<open>
  The \<open>switch\<close> of \<open>run\<close> on the mode, with the calls made (none in the default
  branch), the logger and the value \<open>run\<close> then sends on \<open>errChan\<close>.
\<close>

definition run_switch :: "TradeApp \<Rightarrow> replies \<Rightarrow> logger \<Rightarrow> call list \<times> logger \<times> error option" where
  "run_switch app r lg =
     (if Mode (args app) = ''list'' then
        (case list app (ordersReply r) lg of (c, lg', e) \<Rightarrow> ([c], lg', e))
      else if Mode (args app) = ''balances'' then
        (case balances app (balancesReply r) lg of (c, lg', e) \<Rightarrow> ([c], lg', e))
      else if Mode (args app) = ''place'' then
        (case place app (placeReply r) lg of (c, lg', e) \<Rightarrow> ([c], lg', e))
      else if Mode (args app) = ''cancel'' then
        (case cancel app (cancelReply r) lg of (c, lg', e) \<Rightarrow> ([c], lg', e))
      else ([], lg, Some errUnknownMode))"

subsection \<open>The callbacks registered by NewTradeApp\<close>

text \<open>
  Modelled from the spec: the connection states and \<open>websocket.ConnStateNames\<close>, which
  are declared outside the modelled sources; the spec lists the states as disconnected,
  connecting, authenticating, ready, disconnecting and disconnected-with-error.
\<close>

datatype ConnState =
  Disconnected | Connecting | Authenticating | Ready | Disconnecting | DisconnectedWithError

fun ConnStateNames :: "ConnState \<Rightarrow> string" where
  "ConnStateNames Disconnected = ''disconnected''"
| "ConnStateNames Connecting = ''connecting''"
| "ConnStateNames Authenticating = ''authenticating''"
| "ConnStateNames Ready = ''ready''"
| "ConnStateNames Disconnecting = ''disconnecting''"
| "ConnStateNames DisconnectedWithError = ''disconnected-with-error''"

text \<open>
  The handler of lines 147 to 157 (verbose mode): an error that makes the client
  disconnect is sent on \<open>lastErrChan\<close>, any other is printed at once.
\<close>

definition onError_verbose ::
    "error option \<Rightarrow> bool \<Rightarrow> error option chan \<Rightarrow> logger \<Rightarrow> error option chan \<times> logger" where
  "onError_verbose err disconnecting lastErrChan lg =
     (if disconnecting then (chan_send err lastErrChan, lg)
      else (lastErrChan, log_Print (''Error: '' @ fmt_s err) lg))"

text \<open>
  The handler of lines 161 to 172 (verbose mode): a \<open>select\<close> with a \<open>default\<close> case,
  that is a receive that does not wait. Beside the channel and the logger the model
  returns what the receive took, if it took something.
\<close>

definition state_line :: "ConnState \<Rightarrow> ConnState \<Rightarrow> string" where
  "state_line oldState newState =
     ''State updated: '' @ ConnStateNames oldState @ '' -> '' @ ConnStateNames newState"

definition onStateChange ::
    "ConnState \<Rightarrow> ConnState \<Rightarrow> error option chan \<Rightarrow> logger
       \<Rightarrow> error option chan \<times> logger \<times> error option option" where
  "onStateChange oldState newState lastErrChan lg =
     (case chan_recv lastErrChan of
        Some (err, ch) \<Rightarrow>
          (case err of
             Some e \<Rightarrow> (ch, log_Print (state_line oldState newState @ '': '' @ Error e) lg, Some err)
           | None \<Rightarrow> (ch, log_Print (state_line oldState newState) lg, Some err))
      | None \<Rightarrow> (lastErrChan, log_Print (state_line oldState newState) lg, None))"

text \<open>The handler of lines 176 to 178: a send on the unbuffered channel \<open>ready\<close>.\<close>

definition onReady :: "TradeApp \<Rightarrow> TradeApp" where
  "onReady app = app\<lparr>ready := chan_send () (ready app)\<rparr>"

text \<open>The handler of lines 180 to 184.\<close>

definition onSubscriptionResult :: "string list \<Rightarrow> logger \<Rightarrow> logger" where
  "onSubscriptionResult failed lg =
     (if length failed > 0 then log_Print (''Subscription failed '' @ show_strings failed) lg
      else lg)"

text \<open>
  The handler of lines 186 to 190: a plain send on \<open>errChan\<close>. Beside the application
  the model returns the value sent, if one was.
\<close>

definition onError :: "error option \<Rightarrow> TradeApp \<Rightarrow> TradeApp \<times> error option list" where
  "onError err app =
     (if err \<noteq> None then (app\<lparr>errChan := chan_send err (errChan app)\<rparr>, [err])
      else (app, []))"

definition NewTradeApp :: "cliArgs \<Rightarrow> CWConfig \<Rightarrow> error option \<Rightarrow> call \<times> (error + TradeApp)" where
  "NewTradeApp a cfg res =
     (let mID = common_MarketID (MarketID a);
          c = NewTradeClient
                \<lparr>WSParams = \<lparr>ws_APIKey = APIKey cfg, ws_SecretKey = SecretKey cfg, URL = TradeURL cfg\<rparr>,
                 TradeSessions =
                   [\<lparr>MarketParams_ID = mID,
                     ExchangeAuth = \<lparr>ea_APIKey = ExchAPIKey a, ea_APISecret = ExchSecretKey a\<rparr>\<rparr>]\<rparr>
      in case res of
           Some err \<Rightarrow> (c, Inl err)
         | None \<Rightarrow> (c, Inr \<lparr>marketID = mID, args = a, ready = make_chan 0, errChan = make_chan 1\<rparr>))"

subsection \<open>The running program\<close>

text \<open>
  After \<open>NewTradeApp\<close> the program is three activities: \<open>main\<close>, waiting in its
  \<open>select\<close>; the goroutine \<open>run\<close>; and the collaborator, which invokes the callbacks.
  The state holds the channels, the cancellation of the context, where \<open>run\<close> and
  \<open>main\<close> stand, and the logger. Four fields are histories, which the program does not
  hold: the calls made on the collaborator, the sends on \<open>errChan\<close> with their sender,
  the values sent on \<open>lastErrChan\<close> and the values the state-change handler took from
  it. \<open>lastErrChan\<close> exists in verbose mode only; the two verbose handlers do nothing
  otherwise, since they are not registered.
\<close>

datatype run_phase = RunStart | RunSelect | RunSend "error option" | RunSent

datatype main_select = SelSignal | SelErrChan "error option"

datatype writer = ByRun | ByOnError

datatype run_case = CaseDone | CaseReady

datatype main_case = CaseSignals | CaseErrChan

record state =
  app :: TradeApp
  lastErrChan :: "error option chan"
  ctxDone :: bool
  signals :: "unit chan"
  runAt :: run_phase
  mainAt :: "main_select option"
  lg :: logger
  calls :: "call list"
  writes :: "(writer \<times> error option) list"
  saved :: "error option list"
  taken :: "error option list"

definition start :: "TradeApp \<Rightarrow> logger \<Rightarrow> call list \<Rightarrow> state" where
  "start ap l cs =
     \<lparr>app = ap, lastErrChan = make_chan 1, ctxDone = False, signals = make_chan 1,
      runAt = RunStart, mainAt = None, lg = l, calls = cs, writes = [], saved = [],
      taken = []\<rparr>"

text \<open>
  One step of \<open>run\<close> (lines 195 to 215): the call of \<open>Connect\<close>; the \<open>select\<close>, which
  waits while neither case can proceed, with the command in the \<open>ready\<close> case; the send
  of the value on \<open>errChan\<close>, in which \<open>run\<close> stays if the send blocks.
\<close>

definition run :: "nat \<Rightarrow> replies \<Rightarrow> state \<Rightarrow> state" where
  "run pick r st =
     (case runAt st of
        RunStart \<Rightarrow> st\<lparr>runAt := RunSelect, calls := calls st @ [Connect]\<rparr>
      | RunSelect \<Rightarrow>
          (case go_select ((if ctxDone st then [CaseDone] else [])
                           @ (if can_recv (ready (app st)) then [CaseReady] else [])) pick of
             None \<Rightarrow> st
           | Some CaseDone \<Rightarrow> st\<lparr>runAt := RunSend (Some ContextCanceled)\<rparr>
           | Some CaseReady \<Rightarrow>
               (case chan_recv (ready (app st)) of
                  None \<Rightarrow> st
                | Some (u, ch) \<Rightarrow>
                    (case run_switch (app st) r (lg st) of
                       (cs, lg', e) \<Rightarrow>
                         st\<lparr>app := (app st)\<lparr>ready := ch\<rparr>, lg := lg',
                            calls := calls st @ cs, runAt := RunSend e\<rparr>)))
      | RunSend e \<Rightarrow>
          st\<lparr>app := (app st)\<lparr>errChan := chan_send e (errChan (app st))\<rparr>,
             writes := writes st @ [(ByRun, e)], runAt := RunSent\<rparr>
      | RunSent \<Rightarrow> st)"

text \<open>
  The \<open>select\<close> of \<open>main\<close> (lines 77 to 90) with the \<open>cancel()\<close> of either case; what
  \<open>main\<close> does afterwards is in \<open>main\<close> below.
\<close>

definition main_select :: "nat \<Rightarrow> state \<Rightarrow> state" where
  "main_select pick st =
     (case mainAt st of
        Some sel \<Rightarrow> st
      | None \<Rightarrow>
          (case go_select ((if can_recv (signals st) then [CaseSignals] else [])
                           @ (if can_recv (errChan (app st)) then [CaseErrChan] else [])) pick of
             None \<Rightarrow> st
           | Some CaseSignals \<Rightarrow>
               (case chan_recv (signals st) of
                  None \<Rightarrow> st
                | Some (u, ch) \<Rightarrow> st\<lparr>signals := ch, ctxDone := True, mainAt := Some SelSignal\<rparr>)
           | Some CaseErrChan \<Rightarrow>
               (case chan_recv (errChan (app st)) of
                  None \<Rightarrow> st
                | Some (err, ch) \<Rightarrow>
                    st\<lparr>app := (app st)\<lparr>errChan := ch\<rparr>, ctxDone := True,
                       mainAt := Some (SelErrChan err)\<rparr>)))"

text \<open>
  What can happen while the program runs: the collaborator invokes a callback, the
  operating system delivers a signal, \<open>run\<close> takes a step (with the choice of its
  \<open>select\<close> and the collaborator's answers), \<open>main\<close> leaves its \<open>select\<close>.
\<close>

datatype event =
    ReadyCB
  | SubscriptionResultCB "string list"
  | VerboseErrorCB common_MarketID "error option" bool
  | StateChangeCB ConnState ConnState
  | ErrorCB common_MarketID "error option" bool
  | Signal
  | Run nat replies
  | Main nat

fun step :: "state \<Rightarrow> event \<Rightarrow> state" where
  "step st ReadyCB = st\<lparr>app := onReady (app st)\<rparr>"
| "step st (SubscriptionResultCB failed) = st\<lparr>lg := onSubscriptionResult failed (lg st)\<rparr>"
| "step st (VerboseErrorCB mID err disconnecting) =
     (if Verbose (args (app st)) then
        (case onError_verbose err disconnecting (lastErrChan st) (lg st) of
           (ch, lg') \<Rightarrow>
             st\<lparr>lastErrChan := ch, lg := lg',
                saved := saved st @ (if disconnecting then [err] else [])\<rparr>)
      else st)"
| "step st (StateChangeCB oldState newState) =
     (if Verbose (args (app st)) then
        (case onStateChange oldState newState (lastErrChan st) (lg st) of
           (ch, lg', got) \<Rightarrow>
             st\<lparr>lastErrChan := ch, lg := lg',
                taken := taken st @ (case got of None \<Rightarrow> [] | Some err \<Rightarrow> [err])\<rparr>)
      else st)"
| "step st (ErrorCB mID err disconnecting) =
     (case onError err (app st) of
        (ap, sent) \<Rightarrow> st\<lparr>app := ap, writes := writes st @ map (Pair ByOnError) sent\<rparr>)"
| "step st Signal = st\<lparr>signals := chan_offer () (signals st)\<rparr>"
| "step st (Run pick r) = run pick r st"
| "step st (Main pick) = main_select pick st"

primrec exec :: "state \<Rightarrow> event list \<Rightarrow> state" where
  "exec st [] = st"
| "exec st (e # es) = exec (step st e) es"

subsection \<open>main\<close>

text \<open>
  What the environment decides for one execution: the \<open>--config\<close> flag, the answers of
  package \<open>config\<close> and of \<open>websocket.NewTradeClient\<close>, what happens while the program
  runs, and the answer of \<open>Close\<close>.
\<close>

record environment =
  configPath :: string
  config_NewFromPath :: "error + CWConfig"
  config_Get :: CWConfig
  websocket_NewTradeClient :: "error option"
  schedule :: "event list"
  client_Close :: "error option"

text \<open>
  The end of an execution: the exit status (\<open>None\<close> when \<open>main\<close> never leaves its
  \<open>select\<close>), the logger, the calls made on the collaborator and whether
  \<open>flag.PrintDefaults\<close> was called.
\<close>

record ending =
  status :: "int option"
  log :: logger
  collab :: "call list"
  usage :: bool

text \<open>Lines 80 to 96, after the \<open>select\<close> and its \<open>cancel()\<close>.\<close>

definition shutdown :: "main_select \<Rightarrow> error option \<Rightarrow> state \<Rightarrow> ending" where
  "shutdown sel closeErr st =
     (let (lg1, usg) =
            (case sel of
               SelSignal \<Rightarrow> (lg st, False)
             | SelErrChan None \<Rightarrow> (lg st, False)
             | SelErrChan (Some err) \<Rightarrow>
                 (log_Print (''Error: '' @ Error err) (lg st), err = errUnknownMode));
          lg2 = log_Print ''Closing connection...'' lg1
      in case closeErr of
           Some err \<Rightarrow>
             \<lparr>status = Some 1,
              log = log_Print (''Failed to close connection: '' @ Error err) lg2,
              collab = calls st @ [Close], usage = usg\<rparr>
         | None \<Rightarrow> \<lparr>status = Some 0, log = lg2, collab = calls st @ [Close], usage = usg\<rparr>)"

text \<open>
  Lines 43 to 67: the three checks that end the program with status 1 before anything
  is started. The model returns the calls made on the collaborator so far and the error
  or the application.
\<close>

definition startup :: "cliArgs \<Rightarrow> environment \<Rightarrow> call list \<times> (error + TradeApp)" where
  "startup a env =
     (case checkCliArgs a of
        Some err \<Rightarrow> ([], Inl err)
      | None \<Rightarrow>
          (case (if configPath env \<noteq> [] then config_NewFromPath env
                 else Inr (config_Get env)) of
             Inl cfgErr \<Rightarrow> ([], Inl cfgErr)
           | Inr cfg \<Rightarrow>
               (case NewTradeApp a cfg (websocket_NewTradeClient env) of
                  (c, r) \<Rightarrow> ([c], r))))"

text \<open>
  \<open>main\<close>: after a failed check, \<open>log.Print(err)\<close> and \<open>os.Exit(1)\<close>; otherwise the
  program runs as the schedule says, and what \<open>main\<close> does after its \<open>select\<close> comes
  last (the lines the other goroutines log while \<open>main\<close> shuts down are placed before
  those of \<open>main\<close>).
\<close>

definition main :: "cliArgs \<Rightarrow> environment \<Rightarrow> ending" where
  "main a env =
     (case startup a env of
        (cs, Inl err) \<Rightarrow>
          \<lparr>status = Some 1, log = log_Print (Error err) std, collab = cs, usage = False\<rparr>
      | (cs, Inr ap) \<Rightarrow>
          (let st = exec (start ap std cs) (schedule env)
           in case mainAt st of
                None \<Rightarrow> \<lparr>status = None, log = lg st, collab = calls st, usage = False\<rparr>
              | Some sel \<Rightarrow> shutdown sel (client_Close env) st))"

subsection \<open>Sample executions\<close>

text \<open>
  A request for a mode on market 1, answers of the collaborator (two orders \<open>A1\<close> and
  \<open>A2\<close>, a rejected order placement), and an environment without a configuration file
  in which the client is built, the given schedule happens and \<open>Close\<close> answers as
  given.
\<close>

definition request :: "string \<Rightarrow> cliArgs" where
  "request m =
     \<lparr>Verbose = False, Mode = m, MarketID = 1, ExchAPIKey = [], ExchSecretKey = [],
      OrderID = []\<rparr>"

definition answers :: replies where
  "answers =
     \<lparr>ordersReply = Inr [\<lparr>ID = ''A1'', printed = ''{A1}''\<rparr>, \<lparr>ID = ''A2'', printed = ''{A2}''\<rparr>],
      balancesReply = Inr ''map[]'',
      placeReply = Inl (External ''insufficient funds''),
      cancelReply = None\<rparr>"

definition world :: "event list \<Rightarrow> error option \<Rightarrow> environment" where
  "world evs cl =
     \<lparr>configPath = [], config_NewFromPath = Inl (External ''no file''),
      config_Get = \<lparr>APIKey = ''k'', SecretKey = ''s'', TradeURL = ''u''\<rparr>,
      websocket_NewTradeClient = None, schedule = evs, client_Close = cl\<rparr>"

subsection \<open>Notions used in the statements\<close>

text \<open>
  The state of the goroutines once the schedule has happened, when the three checks of
  \<open>main\<close> have passed.
\<close>

definition running :: "cliArgs \<Rightarrow> environment \<Rightarrow> state option" where
  "running a env =
     (case startup a env of
        (cs, Inl err) \<Rightarrow> None
      | (cs, Inr ap) \<Rightarrow> Some (exec (start ap std cs) (schedule env)))"

text \<open>
  What a channel holds, in the order of the sends: the buffer, then the values of the
  blocked senders. A channel is well formed when its buffer is within its capacity
  and senders are blocked only while the buffer is full.
\<close>

definition contents :: "'a chan \<Rightarrow> 'a list" where
  "contents ch = buf ch @ sendq ch"

definition chan_ok :: "'a chan \<Rightarrow> bool" where
  "chan_ok ch = (length (buf ch) \<le> cap ch \<and> (sendq ch \<noteq> [] \<longrightarrow> length (buf ch) = cap ch))"

text \<open>The value \<open>main\<close> has received from \<open>errChan\<close>, as a list of at most one value.\<close>

definition main_got :: "state \<Rightarrow> error option list" where
  "main_got st = (case mainAt st of Some (SelErrChan v) \<Rightarrow> [v] | _ \<Rightarrow> [])"

definition inv_err :: "state \<Rightarrow> bool" where
  "inv_err st =
     (cap (errChan (app st)) = 1 \<and> chan_ok (errChan (app st))
      \<and> map snd (writes st) = main_got st @ contents (errChan (app st)))"

definition inv_last :: "state \<Rightarrow> bool" where
  "inv_last st =
     (cap (lastErrChan st) = 1 \<and> chan_ok (lastErrChan st)
      \<and> saved st = taken st @ contents (lastErrChan st))"

text \<open>
  The commands among the calls made on the collaborator, and the values \<open>run\<close> has sent
  on \<open>errChan\<close>.
\<close>

fun is_command :: "call \<Rightarrow> bool" where
  "is_command (GetOrders m) = True"
| "is_command GetBalances = True"
| "is_command (PlaceOrder p) = True"
| "is_command (CancelOrder p) = True"
| "is_command c = False"

definition commands :: "state \<Rightarrow> call list" where
  "commands st = filter is_command (calls st)"

definition run_writes :: "state \<Rightarrow> error option list" where
  "run_writes st = map snd (filter (\<lambda>w. fst w = ByRun) (writes st))"

definition inv_run :: "state \<Rightarrow> bool" where
  "inv_run st =
     (case runAt st of
        RunStart \<Rightarrow> commands st = [] \<and> run_writes st = []
      | RunSelect \<Rightarrow> commands st = [] \<and> run_writes st = []
      | RunSend e \<Rightarrow> length (commands st) \<le> 1 \<and> run_writes st = []
      | RunSent \<Rightarrow> length (commands st) \<le> 1 \<and> length (run_writes st) = 1)"

text \<open>
  The events that can end the wait: a readiness callback, an error reported to the
  handler of lines 186 to 190, a signal. The other events are quiet.
\<close>

fun quiet :: "event \<Rightarrow> bool" where
  "quiet ReadyCB = False"
| "quiet (ErrorCB m (Some err) d) = False"
| "quiet Signal = False"
| "quiet e = True"

definition inv_quiet :: "state \<Rightarrow> bool" where
  "inv_quiet st =
     (writes st = [] \<and> contents (errChan (app st)) = [] \<and> contents (signals st) = []
      \<and> contents (ready (app st)) = [] \<and> mainAt st = None \<and> \<not> ctxDone st
      \<and> (runAt st = RunStart \<or> runAt st = RunSelect))"

text \<open>
  \<open>run\<close> has left its \<open>select\<close> with the value \<open>v\<close> and the commands \<open>cs\<close>: it is about
  to send \<open>v\<close>, or it has sent \<open>v\<close> and nothing else.
\<close>

definition run_left :: "error option \<Rightarrow> call list \<Rightarrow> state \<Rightarrow> bool" where
  "run_left v cs st =
     (commands st = cs
      \<and> (runAt st = RunSend v \<and> run_writes st = []
         \<or> runAt st = RunSent \<and> run_writes st = [v]))"

text \<open>No readiness signal is pending and no command has been called.\<close>

definition not_ready :: "state \<Rightarrow> bool" where
  "not_ready st = (contents (ready (app st)) = [] \<and> commands st = [])"

text \<open>
  Two schedules. In the first the collaborator reports three errors, and \<open>main\<close> leaves
  its \<open>select\<close> after the first. In the second the connection goes down before it was
  ever ready, and no error is reported.
\<close>

definition three_errors :: "event list" where
  "three_errors =
     [Run 0 answers, ErrorCB (common_MarketID 1) (Some (External ''e1'')) True, Main 0,
      ErrorCB (common_MarketID 1) (Some (External ''e2'')) True,
      ErrorCB (common_MarketID 1) (Some (External ''e3'')) True]"

definition closes_early :: "event list" where
  "closes_early =
     [Run 0 answers, StateChangeCB Disconnected Connecting,
      StateChangeCB Connecting Disconnected, Run 0 answers, Main 0]"

section \<open>Argument validation\<close>

lemma startup_rejects: "checkCliArgs a = Some err \<Longrightarrow> startup a env = ([], Inl err)"
  by (simp add: startup_def)

lemma main_rejects:
  "checkCliArgs a = Some err \<Longrightarrow>
     main a env =
       \<lparr>status = Some 1, log = log_Print (Error err) std, collab = [], usage = False\<rparr>"
  by (simp add: main_def startup_rejects)

text \<open>
  C6. \<open>checkCliArgs\<close> returns \<open>nil\<close> exactly when the mode is one of list, balances,
  place and cancel, the market id is not zero and, for mode cancel, the order id is not
  empty. With any other arguments \<open>main\<close> ends with status 1 before it has made any
  call on the collaborator: the client is not even built, let alone connected.
\<close>

theorem checkCliArgs_accepts_iff:
  "(checkCliArgs a = None) =
     (Mode a \<in> {''list'', ''balances'', ''place'', ''cancel''} \<and> MarketID a \<noteq> 0
      \<and> (Mode a = ''cancel'' \<longrightarrow> OrderID a \<noteq> []))
   \<and> (checkCliArgs a \<noteq> None \<longrightarrow>
        status (main a env) = Some 1 \<and> collab (main a env) = [])"
proof
  show "(checkCliArgs a = None) =
     (Mode a \<in> {''list'', ''balances'', ''place'', ''cancel''} \<and> MarketID a \<noteq> 0
      \<and> (Mode a = ''cancel'' \<longrightarrow> OrderID a \<noteq> []))"
    by (auto simp: checkCliArgs_def)
  show "checkCliArgs a \<noteq> None \<longrightarrow>
        status (main a env) = Some 1 \<and> collab (main a env) = []"
    by (auto simp: main_rejects)
qed

theorem checkCliArgs_accepts_iff_witness:
  "checkCliArgs (request ''cancel'') \<noteq> None
   \<and> status (main (request ''cancel'') (world [] None)) = Some 1
   \<and> collab (main (request ''cancel'') (world [] None)) = []
   \<and> checkCliArgs ((request ''cancel'')\<lparr>OrderID := ''17''\<rparr>) = None"
  using checkCliArgs_accepts_iff [of "request ''cancel''" "world [] None"]
    checkCliArgs_accepts_iff [of "(request ''cancel'')\<lparr>OrderID := ''17''\<rparr>" "world [] None"]
  by (simp add: request_def)

section \<open>The commands\<close>

text \<open>
  C10. \<open>balances\<close> leaves the flags of the global logger as it found them, on the error
  path (which does not touch them) and on the success path, where it saves them, sets
  them to 0 for the line with the balances and restores them before the last line.
\<close>

theorem balances_restores_flags:
  "logFlags (fst (snd (balances ap reply l))) = logFlags l
   \<and> balances ap (Inr result) l =
       (GetBalances,
        \<lparr>logFlags = logFlags l,
         logged = logged l @ [(logFlags l, ''Getting balances...''),
                             (0, ''balances='' @ result),
                             (logFlags l, ''Balances: done'')]\<rparr>,
        None)"
  by (simp add: balances_def log_Print_def log_SetFlags_def log_Flags_def Let_def
        split: sum.splits)

text \<open>
  C7, as the code has it. \<open>place\<close> calls \<open>PlaceOrder\<close> with parameters written in the
  program: one absolute price \<open>0.01\<close>, the amount \<open>0.01\<close>, side buy, type limit, and
  the market of the application. Price and amount are decimal strings. On success it
  logs the order the collaborator returned after \<open>Order placed:\<close> and returns \<open>nil\<close>;
  on failure it returns the collaborator's error.
\<close>

theorem place_fixed_parameters:
  "place ap reply l =
     (PlaceOrder
        \<lparr>PriceParams = [\<lparr>Type = AbsoluteValuePrice, Value = ''0.01''\<rparr>],
         po_MarketID = marketID ap, Amount = ''0.01'', OrderSide = OrderSideBuy,
         OrderType = LimitOrder\<rparr>,
      (case reply of
         Inl err \<Rightarrow> (log_Print ''Trading ready: placing order...'' l, Some err)
       | Inr order \<Rightarrow>
           (log_Print (''Order placed: '' @ printed order)
              (log_Print ''Trading ready: placing order...'' l), None)))"
  by (simp add: place_def place_params_def Let_def split: sum.splits)

text \<open>
  C7, as the claim has it: the parameters of the order would be those of the request.
  The request (\<open>cliArgs\<close>) has no price, amount, side or order type, and no execution
  places an order with, say, the amount 2.
\<close>

theorem place_request_parameters_counterexample:
  "\<not> (\<exists>ap reply l p. fst (place ap reply l) = PlaceOrder p \<and> Amount p = ''2'')"
  by (simp add: place_def place_params_def Let_def split: sum.splits)

section \<open>The end of main\<close>

lemma main_running:
  "running a env = Some st \<Longrightarrow> mainAt st = Some sel \<Longrightarrow>
     main a env = shutdown sel (client_Close env) st"
  by (auto simp: running_def main_def Let_def split: prod.splits sum.splits)

lemma main_waiting:
  "running a env = Some st \<Longrightarrow> mainAt st = None \<Longrightarrow> status (main a env) = None"
  by (auto simp: running_def main_def Let_def split: prod.splits sum.splits)

lemma main_startup_fails:
  "startup a env = (cs, Inl err) \<Longrightarrow>
     main a env =
       \<lparr>status = Some 1, log = log_Print (Error err) std, collab = cs, usage = False\<rparr>"
  by (simp add: main_def)

lemma shutdown_status:
  "status (shutdown sel closeErr st) = Some (if closeErr = None then 0 else 1)"
  by (simp add: shutdown_def Let_def split: main_select.splits option.splits prod.splits)

lemma shutdown_logs_error:
  "closeErr = None \<Longrightarrow>
     logged (log (shutdown (SelErrChan (Some err)) closeErr st)) =
       logged (lg st) @ [(logFlags (lg st), ''Error: '' @ Error err),
                         (logFlags (lg st), ''Closing connection...'')]"
  by (simp add: shutdown_def Let_def log_Print_def)

text \<open>
  C1, as the code has it. A failed check at startup (arguments, configuration file,
  construction of the client) ends the program with status 1 and the text of the error
  in the log. Once \<open>main\<close> has left its \<open>select\<close>, and \<open>Close\<close> succeeds, the status
  is 0 whatever ended the wait: a signal of the operator, \<open>nil\<close> from a command that
  succeeded, or an error of a command or of the session, whose text is logged after
  \<open>Error:\<close>.
\<close>

theorem exit_status:
  "(startup a env = (cs, Inl err) \<longrightarrow>
      status (main a env) = Some 1 \<and> logged (log (main a env)) = [(LstdFlags, Error err)])
   \<and> (running a env = Some st \<and> mainAt st = Some sel \<and> client_Close env = None \<longrightarrow>
        status (main a env) = Some 0
        \<and> (\<forall>e. sel = SelErrChan (Some e) \<longrightarrow>
              logged (log (main a env)) =
                logged (lg st) @ [(logFlags (lg st), ''Error: '' @ Error e),
                                  (logFlags (lg st), ''Closing connection...'')]))"
  by (auto simp: main_startup_fails main_running shutdown_status shutdown_logs_error
        log_Print_def std_def)

theorem exit_status_witness:
  "status (main (request ''cancel'') (world [] None)) = Some 1
   \<and> logged (log (main (request ''cancel'') (world [] None))) = [(LstdFlags, ''orderid is empty'')]
   \<and> status (main (request ''place'')
        (world [Run 0 answers, ReadyCB, Run 0 answers, Run 0 answers, Main 0] None)) = Some 0
   \<and> logged (log (main (request ''place'')
        (world [Run 0 answers, ReadyCB, Run 0 answers, Run 0 answers, Main 0] None))) =
       [(LstdFlags, ''Trading ready: placing order...''),
        (LstdFlags, ''Error: insufficient funds''),
        (LstdFlags, ''Closing connection...'')]"
proof -
  let ?sched = "[Run 0 answers, ReadyCB, Run 0 answers, Run 0 answers, Main 0]"
  let ?e = "External ''insufficient funds''"
  have 1: "startup (request ''cancel'') (world [] None)
             = ([], Inl (ErrorsNew ''orderid is empty''))"
    by (simp add: startup_def checkCliArgs_def request_def)
  obtain st where 2: "running (request ''place'') (world ?sched None) = Some st"
    by (simp add: running_def startup_def checkCliArgs_def request_def world_def
          NewTradeApp_def Let_def)
  have 3: "mainAt st = Some (SelErrChan (Some ?e))
           \<and> lg st = \<lparr>logFlags = LstdFlags,
                        logged = [(LstdFlags, ''Trading ready: placing order...'')]\<rparr>"
    using 2
    by (auto simp: running_def startup_def checkCliArgs_def request_def world_def
          NewTradeApp_def Let_def start_def run_def main_select_def go_select_def
          can_recv_def chan_recv_def chan_send_def make_chan_def onReady_def
          run_switch_def place_def place_params_def answers_def log_Print_def std_def)
  have 4: "client_Close (world ?sched None) = None"
    by (simp add: world_def)
  show ?thesis
    using exit_status [of "request ''cancel''" "world [] None" "[]"
                          "ErrorsNew ''orderid is empty''" st "SelErrChan (Some ?e)"]
          exit_status [of "request ''place''" "world ?sched None" "[]"
                          "ErrorsNew ''orderid is empty''" st "SelErrChan (Some ?e)"]
          1 2 3 4
    by simp
qed

text \<open>
  C1, as the claim has it: an execution that ends with an error of the command would
  have a status other than 0. Here the collaborator rejects the order, \<open>main\<close> takes
  the error from \<open>errChan\<close> and logs it, \<open>Close\<close> succeeds, and the status is 0.
\<close>

theorem exit_status_counterexample:
  "map_option mainAt
     (running (request ''place'')
        (world [Run 0 answers, ReadyCB, Run 0 answers, Run 0 answers, Main 0] None))
     = Some (Some (SelErrChan (Some (External ''insufficient funds''))))
   \<and> status (main (request ''place'')
        (world [Run 0 answers, ReadyCB, Run 0 answers, Run 0 answers, Main 0] None)) = Some 0"
  by (simp add: main_def running_def startup_def checkCliArgs_def request_def world_def
        NewTradeApp_def Let_def start_def run_def main_select_def go_select_def
        can_recv_def chan_recv_def chan_send_def make_chan_def onReady_def
        run_switch_def place_def place_params_def answers_def log_Print_def std_def
        shutdown_def)

section \<open>Channels\<close>

lemma cap_send: "cap (chan_send v ch) = cap ch"
  by (simp add: chan_send_def)

lemma contents_send: "chan_ok ch \<Longrightarrow> contents (chan_send v ch) = contents ch @ [v]"
  by (auto simp: chan_send_def contents_def chan_ok_def)

lemma chan_ok_send: "chan_ok ch \<Longrightarrow> chan_ok (chan_send v ch)"
  by (auto simp: chan_send_def chan_ok_def)

lemma chan_make: "chan_ok (make_chan c)" "cap (make_chan c) = c" "contents (make_chan c) = []"
  by (simp_all add: chan_ok_def make_chan_def contents_def)

lemma recv_cap: "chan_recv ch = Some (v, ch') \<Longrightarrow> cap ch' = cap ch"
  by (auto simp: chan_recv_def split: list.splits)

lemma recv_contents: "chan_recv ch = Some (v, ch') \<Longrightarrow> contents ch = v # contents ch'"
  by (auto simp: chan_recv_def contents_def split: list.splits)

lemma recv_ok: "chan_ok ch \<Longrightarrow> chan_recv ch = Some (v, ch') \<Longrightarrow> chan_ok ch'"
  by (auto simp: chan_recv_def chan_ok_def split: list.splits)

lemma recv_None: "(chan_recv ch = None) = (contents ch = [])"
  by (auto simp: chan_recv_def contents_def split: list.splits)

section \<open>The steps of run and main\<close>

lemma go_select_mem: "go_select cs pick = Some c \<Longrightarrow> c \<in> set cs"
  by (auto simp: go_select_def split: if_splits)

lemma run_cases [case_names start wait cancelled ready send sent]:
  obtains
    "runAt st = RunStart"
      "run pick r st = st\<lparr>runAt := RunSelect, calls := calls st @ [Connect]\<rparr>"
  | "runAt st = RunSelect" "run pick r st = st"
  | "runAt st = RunSelect" "ctxDone st"
      "run pick r st = st\<lparr>runAt := RunSend (Some ContextCanceled)\<rparr>"
  | u ch cs lg' e where "runAt st = RunSelect"
      "chan_recv (ready (app st)) = Some (u, ch)"
      "run_switch (app st) r (lg st) = (cs, lg', e)"
      "run pick r st = st\<lparr>app := (app st)\<lparr>ready := ch\<rparr>, lg := lg',
                            calls := calls st @ cs, runAt := RunSend e\<rparr>"
  | e where "runAt st = RunSend e"
      "run pick r st = st\<lparr>app := (app st)\<lparr>errChan := chan_send e (errChan (app st))\<rparr>,
                            writes := writes st @ [(ByRun, e)], runAt := RunSent\<rparr>"
  | "runAt st = RunSent" "run pick r st = st"
proof (cases "runAt st")
  case RunStart
  then show ?thesis using that(1) by (simp add: run_def)
next
  case RunSelect
  let ?cs = "(if ctxDone st then [CaseDone] else [])
             @ (if can_recv (ready (app st)) then [CaseReady] else [])"
  have run: "run pick r st =
     (case go_select ?cs pick of
        None \<Rightarrow> st
      | Some CaseDone \<Rightarrow> st\<lparr>runAt := RunSend (Some ContextCanceled)\<rparr>
      | Some CaseReady \<Rightarrow>
          (case chan_recv (ready (app st)) of
             None \<Rightarrow> st
           | Some (u, ch) \<Rightarrow>
               (case run_switch (app st) r (lg st) of
                  (cs, lg', e) \<Rightarrow>
                    st\<lparr>app := (app st)\<lparr>ready := ch\<rparr>, lg := lg',
                       calls := calls st @ cs, runAt := RunSend e\<rparr>)))"
    using RunSelect unfolding run_def by simp
  show ?thesis
  proof (cases "go_select ?cs pick")
    case None
    with run RunSelect show ?thesis using that(2) by simp
  next
    case (Some c)
    show ?thesis
    proof (cases c)
      case CaseDone
      have "ctxDone st"
        using go_select_mem [OF Some] CaseDone by (auto split: if_splits)
      with run Some CaseDone RunSelect show ?thesis using that(3) by simp
    next
      case CaseReady
      show ?thesis
      proof (cases "chan_recv (ready (app st))")
        case None
        with run Some CaseReady RunSelect show ?thesis using that(2) by simp
      next
        case (Some p)
        obtain u ch where p: "p = (u, ch)" by (cases p)
        obtain cs lg' e where sw: "run_switch (app st) r (lg st) = (cs, lg', e)"
          by (cases "run_switch (app st) r (lg st)")
        from run \<open>go_select ?cs pick = Some c\<close> CaseReady Some p sw
        have "run pick r st = st\<lparr>app := (app st)\<lparr>ready := ch\<rparr>, lg := lg',
                            calls := calls st @ cs, runAt := RunSend e\<rparr>"
          by simp
        with RunSelect Some p sw show ?thesis using that(4) by simp
      qed
    qed
  qed
next
  case (RunSend e)
  then show ?thesis using that(5) by (simp add: run_def)
next
  case RunSent
  then show ?thesis using that(6) by (simp add: run_def)
qed

lemma run_errChan:
  "errChan (app (run pick r st)) =
     (case runAt st of RunSend e \<Rightarrow> chan_send e (errChan (app st)) | _ \<Rightarrow> errChan (app st))"
  by (rule run_cases [of st pick r]) simp_all

lemma run_writes_frame:
  "writes (run pick r st) =
     (case runAt st of RunSend e \<Rightarrow> writes st @ [(ByRun, e)] | _ \<Rightarrow> writes st)"
  by (rule run_cases [of st pick r]) simp_all

lemma run_frame:
  "mainAt (run pick r st) = mainAt st"
  "lastErrChan (run pick r st) = lastErrChan st"
  "saved (run pick r st) = saved st"
  "taken (run pick r st) = taken st"
  "ctxDone (run pick r st) = ctxDone st"
  "signals (run pick r st) = signals st"
  "args (app (run pick r st)) = args (app st)"
  "marketID (app (run pick r st)) = marketID (app st)"
  by (rule run_cases [of st pick r]; simp)+

lemma main_select_cases [case_names past wait signal outcome]:
  obtains
    sel where "mainAt st = Some sel" "main_select pick st = st"
  | "mainAt st = None" "main_select pick st = st"
  | u ch where "mainAt st = None" "chan_recv (signals st) = Some (u, ch)"
      "main_select pick st = st\<lparr>signals := ch, ctxDone := True, mainAt := Some SelSignal\<rparr>"
  | err ch where "mainAt st = None" "chan_recv (errChan (app st)) = Some (err, ch)"
      "main_select pick st =
         st\<lparr>app := (app st)\<lparr>errChan := ch\<rparr>, ctxDone := True,
            mainAt := Some (SelErrChan err)\<rparr>"
proof (cases "mainAt st")
  case (Some sel)
  then show ?thesis using that(1) by (simp add: main_select_def)
next
  case None
  let ?cs = "(if can_recv (signals st) then [CaseSignals] else [])
             @ (if can_recv (errChan (app st)) then [CaseErrChan] else [])"
  have ms: "main_select pick st =
     (case go_select ?cs pick of
        None \<Rightarrow> st
      | Some CaseSignals \<Rightarrow>
          (case chan_recv (signals st) of
             None \<Rightarrow> st
           | Some (u, ch) \<Rightarrow> st\<lparr>signals := ch, ctxDone := True, mainAt := Some SelSignal\<rparr>)
      | Some CaseErrChan \<Rightarrow>
          (case chan_recv (errChan (app st)) of
             None \<Rightarrow> st
           | Some (err, ch) \<Rightarrow>
               st\<lparr>app := (app st)\<lparr>errChan := ch\<rparr>, ctxDone := True,
                  mainAt := Some (SelErrChan err)\<rparr>))"
    using None unfolding main_select_def by simp
  show ?thesis
  proof (cases "go_select ?cs pick")
    case None
    with ms \<open>mainAt st = None\<close> show ?thesis using that(2) by simp
  next
    case (Some c)
    show ?thesis
    proof (cases c)
      case CaseSignals
      show ?thesis
      proof (cases "chan_recv (signals st)")
        case None
        with ms Some CaseSignals \<open>mainAt st = None\<close> show ?thesis using that(2) by simp
      next
        case (Some p)
        obtain u ch where p: "p = (u, ch)" by (cases p)
        from ms \<open>go_select ?cs pick = Some c\<close> CaseSignals Some p
        have "main_select pick st =
                st\<lparr>signals := ch, ctxDone := True, mainAt := Some SelSignal\<rparr>"
          by simp
        with \<open>mainAt st = None\<close> Some p show ?thesis using that(3) by simp
      qed
    next
      case CaseErrChan
      show ?thesis
      proof (cases "chan_recv (errChan (app st))")
        case None
        with ms Some CaseErrChan \<open>mainAt st = None\<close> show ?thesis using that(2) by simp
      next
        case (Some p)
        obtain err ch where p: "p = (err, ch)" by (cases p)
        from ms \<open>go_select ?cs pick = Some c\<close> CaseErrChan Some p
        have "main_select pick st =
                st\<lparr>app := (app st)\<lparr>errChan := ch\<rparr>, ctxDone := True,
                   mainAt := Some (SelErrChan err)\<rparr>"
          by simp
        with \<open>mainAt st = None\<close> Some p show ?thesis using that(4) by simp
      qed
    qed
  qed
qed

section \<open>Invariants of the running program\<close>

lemma inv_err_run: "inv_err st \<Longrightarrow> inv_err (run pick r st)"
  by (rule run_cases [of st pick r])
     (simp_all add: inv_err_def main_got_def cap_send contents_send chan_ok_send)

lemma inv_err_main: "inv_err st \<Longrightarrow> inv_err (main_select pick st)"
  by (rule main_select_cases [of st pick])
     (auto simp: inv_err_def main_got_def recv_cap recv_contents recv_ok)

lemma inv_err_step:
  assumes "inv_err st"
  shows "inv_err (step st e)"
proof (cases e)
  case (Run pick r)
  with assms show ?thesis by (simp add: inv_err_run)
next
  case (Main pick)
  with assms show ?thesis by (simp add: inv_err_main)
next
  case (ErrorCB m err d)
  with assms show ?thesis
    by (simp add: inv_err_def main_got_def onError_def cap_send contents_send chan_ok_send)
next
  case (VerboseErrorCB m err d)
  with assms show ?thesis
    by (simp add: inv_err_def main_got_def split: prod.split)
next
  case (StateChangeCB old new)
  with assms show ?thesis
    by (simp add: inv_err_def main_got_def split: prod.split)
qed (use assms in \<open>simp_all add: inv_err_def main_got_def onReady_def\<close>)

lemma inv_err_exec: "inv_err st \<Longrightarrow> inv_err (exec st evs)"
  by (induction evs arbitrary: st) (simp_all add: inv_err_step)


lemma inv_last_step:
  assumes "inv_last st"
  shows "inv_last (step st e)"
proof (cases e)
  case (Run pick r)
  with assms show ?thesis by (simp add: inv_last_def run_frame)
next
  case (Main pick)
  from assms have "inv_last (main_select pick st)"
    by (rule_tac main_select_cases [of st pick]) (simp_all add: inv_last_def)
  with Main show ?thesis by simp
next
  case (VerboseErrorCB m err d)
  with assms show ?thesis
    by (simp add: inv_last_def onError_verbose_def cap_send contents_send chan_ok_send)
next
  case (StateChangeCB old new)
  show ?thesis
  proof (cases "chan_recv (lastErrChan st)")
    case None
    with assms StateChangeCB show ?thesis
      by (simp add: inv_last_def onStateChange_def)
  next
    case (Some p)
    obtain err ch where p: "p = (err, ch)" by (cases p)
    have recv: "chan_recv (lastErrChan st) = Some (err, ch)"
      using Some p by simp
    from assms have ok: "chan_ok (lastErrChan st)" and c: "cap (lastErrChan st) = 1"
      and sv: "saved st = taken st @ contents (lastErrChan st)"
      by (simp_all add: inv_last_def)
    have "cap ch = 1" "chan_ok ch" "contents (lastErrChan st) = err # contents ch"
      using recv_cap [OF recv] recv_ok [OF ok recv] recv_contents [OF recv] c by simp_all
    with sv ok c StateChangeCB recv show ?thesis
      by (simp add: inv_last_def onStateChange_def split: option.split)
  qed
next
  case (ErrorCB m err d)
  with assms show ?thesis by (simp add: inv_last_def split: prod.split)
qed (use assms in \<open>simp_all add: inv_last_def\<close>)

lemma inv_last_exec: "inv_last st \<Longrightarrow> inv_last (exec st evs)"
  by (induction evs arbitrary: st) (simp_all add: inv_last_step)

lemma inv_last_start: "inv_last (start ap l cs)"
  by (simp add: inv_last_def start_def chan_make)

lemma run_switch_calls:
  "run_switch ap r l = (cs, l', e) \<Longrightarrow> length cs \<le> 1 \<and> filter is_command cs = cs"
  by (auto simp: run_switch_def list_def balances_def place_def cancel_def Let_def
       split: if_splits sum.splits option.splits)

lemma inv_run_run: "inv_run st \<Longrightarrow> inv_run (run pick r st)"
  by (rule run_cases [of st pick r])
     (auto simp: inv_run_def commands_def run_writes_def dest!: run_switch_calls)

lemma inv_run_main: "inv_run st \<Longrightarrow> inv_run (main_select pick st)"
  by (rule main_select_cases [of st pick]; cases "runAt st")
     (simp_all add: inv_run_def commands_def run_writes_def)

lemma inv_run_step:
  assumes "inv_run st"
  shows "inv_run (step st e)"
proof (cases e)
  case (Run pick r)
  with assms show ?thesis by (simp add: inv_run_run)
next
  case (Main pick)
  with assms show ?thesis by (simp add: inv_run_main)
next
  case (ErrorCB m err d)
  with assms show ?thesis
    by (cases "runAt st") (simp_all add: inv_run_def commands_def run_writes_def onError_def)
next
  case (VerboseErrorCB m err d)
  with assms show ?thesis
    by (cases "runAt st")
       (simp_all add: inv_run_def commands_def run_writes_def split: prod.split)
next
  case (StateChangeCB old new)
  with assms show ?thesis
    by (cases "runAt st")
       (simp_all add: inv_run_def commands_def run_writes_def split: prod.split)
next
  case ReadyCB
  with assms show ?thesis
    by (cases "runAt st") (simp_all add: inv_run_def commands_def run_writes_def)
next
  case (SubscriptionResultCB failed)
  with assms show ?thesis
    by (cases "runAt st") (simp_all add: inv_run_def commands_def run_writes_def)
next
  case Signal
  with assms show ?thesis
    by (cases "runAt st") (simp_all add: inv_run_def commands_def run_writes_def)
qed

lemma inv_run_exec: "inv_run st \<Longrightarrow> inv_run (exec st evs)"
  by (induction evs arbitrary: st) (simp_all add: inv_run_step)

lemma commands_le_1: "inv_run st \<Longrightarrow> length (commands st) \<le> 1"
  by (auto simp: inv_run_def split: run_phase.splits)

lemma NewTradeApp_Inr:
  "NewTradeApp a cfg res = (c, Inr ap) \<Longrightarrow>
     ap = \<lparr>marketID = common_MarketID (MarketID a), args = a, ready = make_chan 0,
           errChan = make_chan 1\<rparr>
     \<and> \<not> is_command c"
  by (auto simp: NewTradeApp_def Let_def split: option.splits)

lemma running_Some:
  assumes "running a env = Some st"
  obtains c ap cfg where
    "checkCliArgs a = None"
    "NewTradeApp a cfg (websocket_NewTradeClient env) = (c, Inr ap)"
    "st = exec (start ap std [c]) (schedule env)"
  using assms
  by (auto simp: running_def startup_def split: option.splits sum.splits prod.splits if_splits)

lemma start_invs:
  assumes "NewTradeApp a cfg res = (c, Inr ap)"
  shows "inv_err (start ap l [c])" "inv_run (start ap l [c])"
  using NewTradeApp_Inr [OF assms]
  by (simp_all add: inv_err_def inv_run_def start_def main_got_def chan_make commands_def
        run_writes_def)

lemma running_invs:
  assumes "running a env = Some st"
  shows "inv_err st" "inv_last st" "inv_run st"
  using assms
  by (auto elim!: running_Some intro: inv_err_exec inv_last_exec inv_run_exec start_invs
        inv_last_start)


lemma args_step: "args (app (step st e)) = args (app st)"
proof (cases e)
  case (Run pick r)
  then show ?thesis by (simp add: run_frame)
next
  case (Main pick)
  have "args (app (main_select pick st)) = args (app st)"
    by (rule main_select_cases [of st pick]) simp_all
  with Main show ?thesis by simp
qed (simp_all add: onReady_def onError_def split: prod.split)

lemma args_exec: "args (app (exec st evs)) = args (app st)"
  by (induction evs arbitrary: st) (simp_all add: args_step)

lemma running_args:
  assumes "running a env = Some st"
  shows "args (app st) = a" "checkCliArgs a = None"
proof -
  from assms obtain c ap cfg where
    ok: "checkCliArgs a = None"
    and new: "NewTradeApp a cfg (websocket_NewTradeClient env) = (c, Inr ap)"
    and st: "st = exec (start ap std [c]) (schedule env)"
    by (rule running_Some)
  from NewTradeApp_Inr [OF new] have "args ap = a" by simp
  with st show "args (app st) = a" by (simp add: args_exec start_def)
  from ok show "checkCliArgs a = None" .
qed

lemma run_switch_known_mode:
  "Mode (args ap) \<in> {''list'', ''balances'', ''place'', ''cancel''} \<Longrightarrow>
     fst (run_switch ap r l) \<noteq> []"
  by (auto simp: run_switch_def split: prod.splits)

lemma run_cancelled:
  "runAt st = RunSelect \<Longrightarrow> ctxDone st \<Longrightarrow> contents (ready (app st)) = [] \<Longrightarrow>
     run pick r st = st\<lparr>runAt := RunSend (Some ContextCanceled)\<rparr>"
  by (simp add: run_def go_select_def can_recv_def recv_None)

lemma run_left_step:
  assumes "run_left v cs st"
  shows "run_left v cs (step st e)"
proof (cases e)
  case (Run pick r)
  from assms have "run_left v cs (run pick r st)"
    by (rule_tac run_cases [of st pick r])
       (auto simp: run_left_def commands_def run_writes_def)
  with Run show ?thesis by simp
next
  case (Main pick)
  from assms have "run_left v cs (main_select pick st)"
    by (rule_tac main_select_cases [of st pick])
       (auto simp: run_left_def commands_def run_writes_def)
  with Main show ?thesis by simp
qed (use assms in \<open>auto simp: run_left_def commands_def run_writes_def onError_def
       split: prod.split\<close>)

lemma run_left_exec: "run_left v cs st \<Longrightarrow> run_left v cs (exec st evs)"
  by (induction evs arbitrary: st) (simp_all add: run_left_step)

lemma not_ready_step:
  assumes "not_ready st" "e \<noteq> ReadyCB"
  shows "not_ready (step st e)"
proof (cases e)
  case (Run pick r)
  from assms have "not_ready (run pick r st)"
    by (rule_tac run_cases [of st pick r])
       (auto simp: not_ready_def commands_def recv_contents)
  with Run show ?thesis by simp
next
  case (Main pick)
  from assms have "not_ready (main_select pick st)"
    by (rule_tac main_select_cases [of st pick])
       (auto simp: not_ready_def commands_def)
  with Main show ?thesis by simp
qed (use assms in \<open>auto simp: not_ready_def commands_def onError_def split: prod.split\<close>)

lemma not_ready_exec:
  "not_ready st \<Longrightarrow> ReadyCB \<notin> set evs \<Longrightarrow> not_ready (exec st evs)"
  by (induction evs arbitrary: st) (auto simp: not_ready_step)

lemma inv_quiet_step:
  assumes "inv_quiet st" "quiet e"
  shows "inv_quiet (step st e)"
proof (cases e)
  case (Run pick r)
  from assms have "inv_quiet (run pick r st)"
    by (rule_tac run_cases [of st pick r])
       (auto simp: inv_quiet_def recv_contents)
  with Run show ?thesis by simp
next
  case (Main pick)
  from assms have "inv_quiet (main_select pick st)"
    by (rule_tac main_select_cases [of st pick])
       (auto simp: inv_quiet_def recv_contents)
  with Main show ?thesis by simp
next
  case (ErrorCB m err d)
  with assms show ?thesis
    by (cases err) (auto simp: inv_quiet_def onError_def)
qed (use assms in \<open>auto simp: inv_quiet_def onError_def split: prod.split\<close>)

lemma inv_quiet_exec:
  "inv_quiet st \<Longrightarrow> \<forall>e\<in>set evs. quiet e \<Longrightarrow> inv_quiet (exec st evs)"
  by (induction evs arbitrary: st) (auto simp: inv_quiet_step)


lemmas concrete =
  running_def main_def shutdown_def startup_def checkCliArgs_def request_def world_def
  answers_def NewTradeApp_def Let_def start_def run_def main_select_def go_select_def
  can_recv_def chan_recv_def chan_send_def chan_offer_def make_chan_def onReady_def
  onError_def onError_verbose_def onStateChange_def state_line_def run_switch_def list_def
  place_def place_params_def log_Print_def std_def show_strings_def

lemma start_not_ready:
  assumes "NewTradeApp a cfg res = (c, Inr ap)"
  shows "not_ready (start ap l [c])"
  using NewTradeApp_Inr [OF assms]
  by (simp add: not_ready_def start_def chan_make commands_def)

lemma start_quiet:
  assumes "NewTradeApp a cfg res = (c, Inr ap)"
  shows "inv_quiet (start ap l [c])"
  using NewTradeApp_Inr [OF assms]
  by (simp add: inv_quiet_def start_def chan_make)

section \<open>The outcome handed to main\<close>

text \<open>
  C3, as the code has it. Every send on \<open>errChan\<close> is a plain send on a channel of
  capacity 1. In every state of the running program the values sent so far, in the
  order of the sends, are the value \<open>main\<close> has received (if it has), then the value in
  the buffer (if there is one), then the values of the senders that are blocked. So
  the value delivered to \<open>main\<close> is the first one sent, and no later value is ever
  delivered; and a send completes at once exactly when the buffer is empty, and
  otherwise blocks.
\<close>

theorem outcome_first_write:
  "running a env = Some st \<longrightarrow>
     map snd (writes st) = main_got st @ buf (errChan (app st)) @ sendq (errChan (app st))
     \<and> length (main_got st) \<le> 1 \<and> length (buf (errChan (app st))) \<le> 1
     \<and> (\<forall>v. mainAt st = Some (SelErrChan v) \<longrightarrow>
           map snd (writes st) \<noteq> [] \<and> hd (map snd (writes st)) = v)
     \<and> sendq (chan_send w (errChan (app st))) =
         (if buf (errChan (app st)) = [] then [] else sendq (errChan (app st)) @ [w])"
proof
  assume "running a env = Some st"
  then have "inv_err st" by (rule running_invs)
  then have c: "cap (errChan (app st)) = 1" and ok: "chan_ok (errChan (app st))"
    and w: "map snd (writes st) = main_got st @ contents (errChan (app st))"
    by (simp_all add: inv_err_def)
  have 1: "map snd (writes st)
             = main_got st @ buf (errChan (app st)) @ sendq (errChan (app st))"
    using w by (simp add: contents_def)
  have 2: "length (main_got st) \<le> 1"
    by (simp add: main_got_def split: option.split main_select.split)
  have 3: "length (buf (errChan (app st))) \<le> 1"
    using c ok by (simp add: chan_ok_def)
  have 4: "\<forall>v. mainAt st = Some (SelErrChan v) \<longrightarrow>
           map snd (writes st) \<noteq> [] \<and> hd (map snd (writes st)) = v"
    using w by (auto simp: main_got_def)
  have 5: "sendq (chan_send w (errChan (app st))) =
         (if buf (errChan (app st)) = [] then [] else sendq (errChan (app st)) @ [w])"
    using c ok by (auto simp: chan_send_def chan_ok_def)
  from 1 2 3 4 5
  show "map snd (writes st) = main_got st @ buf (errChan (app st)) @ sendq (errChan (app st))
     \<and> length (main_got st) \<le> 1 \<and> length (buf (errChan (app st))) \<le> 1
     \<and> (\<forall>v. mainAt st = Some (SelErrChan v) \<longrightarrow>
           map snd (writes st) \<noteq> [] \<and> hd (map snd (writes st)) = v)
     \<and> sendq (chan_send w (errChan (app st))) =
         (if buf (errChan (app st)) = [] then [] else sendq (errChan (app st)) @ [w])"
    by blast
qed

theorem outcome_first_write_witness:
  "\<exists>st. running (request ''list'') (world three_errors None) = Some st
     \<and> mainAt st = Some (SelErrChan (Some (External ''e1'')))
     \<and> map snd (writes st) = [Some (External ''e1''), Some (External ''e2''), Some (External ''e3'')]
     \<and> buf (errChan (app st)) = [Some (External ''e2'')]
     \<and> sendq (errChan (app st)) = [Some (External ''e3'')]"
proof -
  obtain st where 1: "running (request ''list'') (world three_errors None) = Some st"
    by (simp add: running_def startup_def checkCliArgs_def request_def world_def
          NewTradeApp_def Let_def)
  have 2: "mainAt st = Some (SelErrChan (Some (External ''e1'')))"
    "buf (errChan (app st)) = [Some (External ''e2'')]"
    "sendq (errChan (app st)) = [Some (External ''e3'')]"
    using 1 by (auto simp: concrete three_errors_def)
  from outcome_first_write [of "request ''list''" "world three_errors None" st] 1
  have "map snd (writes st)
          = main_got st @ buf (errChan (app st)) @ sendq (errChan (app st))"
    by simp
  with 1 2 show ?thesis by (simp add: main_got_def)
qed

text \<open>
  C3, as the claim has it: every later writer would complete without blocking. When the
  collaborator reports two errors before \<open>main\<close> has received the first, the handler
  of the second is blocked in its send.
\<close>

theorem later_writer_blocks_counterexample:
  "map_option (\<lambda>st. sendq (errChan (app st)))
     (running (request ''list'')
        (world [Run 0 answers, ErrorCB (common_MarketID 1) (Some (External ''e1'')) True,
                ErrorCB (common_MarketID 1) (Some (External ''e2'')) True] None))
     = Some [Some (External ''e2'')]"
  by (simp add: concrete)

section \<open>The state-change reporter\<close>


section \<open>Readiness and the command\<close>

text \<open>
  C4, as the code has it. In every state of the running program at most one command
  has been called on the collaborator, and a command has been called only if the
  readiness callback has been invoked before. When \<open>run\<close> stands at its \<open>select\<close>,
  the context is cancelled and the readiness callback has not been invoked, the next
  step of \<open>run\<close> takes the cancellation: from then on no command is ever called, and
  the one value \<open>run\<close> sends on \<open>errChan\<close> is \<open>ctx.Err()\<close>.
\<close>

theorem dispatch_once_after_ready:
  "running a env = Some st \<longrightarrow>
     length (commands st) \<le> 1
     \<and> (commands st \<noteq> [] \<longrightarrow> ReadyCB \<in> set (schedule env))
     \<and> (runAt st = RunSelect \<and> ctxDone st \<and> ReadyCB \<notin> set (schedule env) \<longrightarrow>
          run_left (Some ContextCanceled) [] (exec st (Run pick r # evs)))"
proof
  assume run: "running a env = Some st"
  from run obtain c ap cfg where
    new: "NewTradeApp a cfg (websocket_NewTradeClient env) = (c, Inr ap)"
    and st: "st = exec (start ap std [c]) (schedule env)"
    by (rule running_Some)
  have nr: "not_ready st" if "ReadyCB \<notin> set (schedule env)"
    unfolding st using start_not_ready [OF new] that by (rule not_ready_exec)
  have 1: "length (commands st) \<le> 1"
    using running_invs(3) [OF run] by (rule commands_le_1)
  have 2: "commands st \<noteq> [] \<longrightarrow> ReadyCB \<in> set (schedule env)"
    using nr by (auto simp: not_ready_def)
  have 3: "runAt st = RunSelect \<and> ctxDone st \<and> ReadyCB \<notin> set (schedule env) \<longrightarrow>
          run_left (Some ContextCanceled) [] (exec st (Run pick r # evs))"
  proof
    assume h: "runAt st = RunSelect \<and> ctxDone st \<and> ReadyCB \<notin> set (schedule env)"
    then have n: "contents (ready (app st)) = []" "commands st = []"
      using nr by (simp_all add: not_ready_def)
    from running_invs(3) [OF run] h have w: "run_writes st = []"
      by (simp add: inv_run_def)
    have "run pick r st = st\<lparr>runAt := RunSend (Some ContextCanceled)\<rparr>"
      using h n by (simp add: run_cancelled)
    then have "run_left (Some ContextCanceled) [] (run pick r st)"
      using n w by (simp add: run_left_def commands_def run_writes_def)
    then show "run_left (Some ContextCanceled) [] (exec st (Run pick r # evs))"
      by (simp add: run_left_exec)
  qed
  from 1 2 3 show "length (commands st) \<le> 1
     \<and> (commands st \<noteq> [] \<longrightarrow> ReadyCB \<in> set (schedule env))
     \<and> (runAt st = RunSelect \<and> ctxDone st \<and> ReadyCB \<notin> set (schedule env) \<longrightarrow>
          run_left (Some ContextCanceled) [] (exec st (Run pick r # evs)))"
    by blast
qed

text \<open>
  C4, as the claim has it: after a cancellation that comes before readiness the command
  would never be called. Here \<open>run\<close> has called \<open>Connect\<close> and has not reached its
  \<open>select\<close> when the signal arrives and \<open>main\<close> cancels the context; then the
  readiness callback is invoked; when \<open>run\<close> reaches its \<open>select\<close> both cases can
  proceed, the runtime takes the \<open>ready\<close> case, and the command is called.
\<close>

theorem cancelled_before_ready_counterexample:
  "map_option ctxDone
     (running (request ''list'') (world [Run 0 answers, Signal, Main 0] None)) = Some True
   \<and> map_option commands
     (running (request ''list'')
        (world [Run 0 answers, Signal, Main 0, ReadyCB, Run 1 answers] None))
     = Some [GetOrders (common_MarketID 1)]"
  by (simp add: concrete commands_def)


theorem dispatch_once_after_ready_witness:
  "\<exists>st. running (request ''list'') (world [Run 0 answers, Signal, Main 0] None) = Some st
     \<and> runAt st = RunSelect \<and> ctxDone st
     \<and> ReadyCB \<notin> set (schedule (world [Run 0 answers, Signal, Main 0] None))
     \<and> length (commands st) \<le> 1
     \<and> run_left (Some ContextCanceled) []
           (exec st [Run 0 answers, ReadyCB, Run 0 answers, Main 0])"
proof -
  let ?w = "world [Run 0 answers, Signal, Main 0] None"
  obtain st where 1: "running (request ''list'') ?w = Some st"
    by (simp add: running_def startup_def checkCliArgs_def request_def world_def
          NewTradeApp_def Let_def)
  have 2: "runAt st = RunSelect" "ctxDone st"
    using 1 by (auto simp: concrete)
  have 3: "ReadyCB \<notin> set (schedule ?w)"
    by (simp add: world_def)
  from dispatch_once_after_ready [of "request ''list''" ?w st 0 answers
         "[ReadyCB, Run 0 answers, Main 0]"] 1 2 3
  show ?thesis by simp
qed

section \<open>A connection that closes before it is ready\<close>

text \<open>
  C8, as the code has it. While no readiness callback is invoked, no error is reported
  to the handler of lines 186 to 190 and no signal arrives, whatever else happens
  (state changes among it), nothing is sent on \<open>errChan\<close>: \<open>run\<close> stays before or in
  its \<open>select\<close>, \<open>main\<close> stays in its own, and the program does not end.
\<close>

theorem no_outcome_without_event:
  "running a env = Some st \<and> (\<forall>e\<in>set (schedule env). quiet e) \<longrightarrow>
     writes st = [] \<and> contents (errChan (app st)) = [] \<and> mainAt st = None
     \<and> (runAt st = RunStart \<or> runAt st = RunSelect)
     \<and> status (main a env) = None"
proof
  assume h: "running a env = Some st \<and> (\<forall>e\<in>set (schedule env). quiet e)"
  then have run: "running a env = Some st" and q: "\<forall>e\<in>set (schedule env). quiet e"
    by simp_all
  from run obtain c ap cfg where
    new: "NewTradeApp a cfg (websocket_NewTradeClient env) = (c, Inr ap)"
    and st: "st = exec (start ap std [c]) (schedule env)"
    by (rule running_Some)
  have "inv_quiet st"
    unfolding st using start_quiet [OF new] q by (rule inv_quiet_exec)
  then show "writes st = [] \<and> contents (errChan (app st)) = [] \<and> mainAt st = None
     \<and> (runAt st = RunStart \<or> runAt st = RunSelect)
     \<and> status (main a env) = None"
    using main_waiting [OF run] by (simp add: inv_quiet_def)
qed

theorem no_outcome_without_event_witness:
  "\<exists>st. running ((request ''list'')\<lparr>Verbose := True\<rparr>) (world closes_early None) = Some st
     \<and> (\<forall>e\<in>set (schedule (world closes_early None)). quiet e)
     \<and> writes st = [] \<and> mainAt st = None \<and> (runAt st = RunStart \<or> runAt st = RunSelect)
     \<and> status (main ((request ''list'')\<lparr>Verbose := True\<rparr>) (world closes_early None)) = None"
proof -
  let ?a = "(request ''list'')\<lparr>Verbose := True\<rparr>"
  let ?w = "world closes_early None"
  obtain st where 1: "running ?a ?w = Some st"
    by (simp add: running_def startup_def checkCliArgs_def request_def world_def
          NewTradeApp_def Let_def)
  have 2: "\<forall>e\<in>set (schedule ?w). quiet e"
    by (simp add: world_def closes_early_def)
  from no_outcome_without_event [of ?a ?w st] 1 2
  show ?thesis by simp
qed

text \<open>
  C8, as the claim has it: when the session closes before readiness and reports no
  error, an outcome would be recorded. Here the connection goes from disconnected to
  connecting and back, \<open>run\<close> and \<open>main\<close> are scheduled afterwards, and nothing has
  been sent, \<open>errChan\<close> is empty and \<open>main\<close> is still waiting.
\<close>

theorem closed_unexpectedly_counterexample:
  "map_option (\<lambda>st. (writes st, buf (errChan (app st)), mainAt st, runAt st))
     (running ((request ''list'')\<lparr>Verbose := True\<rparr>) (world closes_early None))
     = Some ([], [], None, RunSelect)
   \<and> status (main ((request ''list'')\<lparr>Verbose := True\<rparr>) (world closes_early None)) = None"
  by (simp add: concrete closes_early_def)

section \<open>An invalid request\<close>

text \<open>
  C5. When \<open>checkCliArgs\<close> rejects the arguments, \<open>main\<close> ends with status 1 and has
  made no call on the collaborator: the goroutine \<open>run\<close>, the only caller of
  \<open>Connect\<close>, is never started. A mode other than the four is always rejected. In
  every state of the running program the mode is one of the four, so that the
  \<open>switch\<close> of \<open>run\<close> calls a command: its default branch is not taken.
\<close>

theorem invalid_request_never_connects:
  "(checkCliArgs a = Some err \<longrightarrow>
      status (main a env) = Some 1 \<and> collab (main a env) = [] \<and> running a env = None)
   \<and> (Mode a \<notin> {''list'', ''balances'', ''place'', ''cancel''} \<longrightarrow> checkCliArgs a \<noteq> None)
   \<and> (running a env = Some st \<longrightarrow>
        Mode (args (app st)) \<in> {''list'', ''balances'', ''place'', ''cancel''}
        \<and> fst (run_switch (app st) r l) \<noteq> [])"
proof -
  have 1: "checkCliArgs a = Some err \<longrightarrow>
      status (main a env) = Some 1 \<and> collab (main a env) = [] \<and> running a env = None"
    by (simp add: main_rejects running_def startup_rejects)
  have 2: "Mode a \<notin> {''list'', ''balances'', ''place'', ''cancel''} \<longrightarrow> checkCliArgs a \<noteq> None"
    by (auto simp: checkCliArgs_def)
  have 3: "running a env = Some st \<longrightarrow>
        Mode (args (app st)) \<in> {''list'', ''balances'', ''place'', ''cancel''}
        \<and> fst (run_switch (app st) r l) \<noteq> []"
  proof
    assume run: "running a env = Some st"
    from running_args [OF run] 2
    have m: "Mode (args (app st)) \<in> {''list'', ''balances'', ''place'', ''cancel''}"
      by auto
    with run_switch_known_mode [OF m]
    show "Mode (args (app st)) \<in> {''list'', ''balances'', ''place'', ''cancel''}
        \<and> fst (run_switch (app st) r l) \<noteq> []"
      by simp
  qed
  from 1 2 3 show ?thesis by blast
qed

theorem invalid_request_never_connects_witness:
  "checkCliArgs (request ''sell'') = Some errUnknownMode
   \<and> status (main (request ''sell'') (world [Run 0 answers, ReadyCB, Run 0 answers] None)) = Some 1
   \<and> collab (main (request ''sell'') (world [Run 0 answers, ReadyCB, Run 0 answers] None)) = []
   \<and> (\<exists>st. running (request ''place'') (world [Run 0 answers, ReadyCB] None) = Some st
          \<and> fst (run_switch (app st) answers std) \<noteq> [])"
proof -
  let ?w = "world [Run 0 answers, ReadyCB, Run 0 answers] None"
  have 1: "checkCliArgs (request ''sell'') = Some errUnknownMode"
    by (simp add: checkCliArgs_def request_def)
  have 2: "Mode (request ''sell'') \<notin> {''list'', ''balances'', ''place'', ''cancel''}"
    by (simp add: request_def)
  obtain st where 3: "running (request ''place'') (world [Run 0 answers, ReadyCB] None) = Some st"
    by (simp add: running_def startup_def checkCliArgs_def request_def world_def
          NewTradeApp_def Let_def)
  from invalid_request_never_connects [of "request ''sell''" errUnknownMode ?w st answers std]
       invalid_request_never_connects [of "request ''place''" errUnknownMode
          "world [Run 0 answers, ReadyCB] None" st answers std] 1 2 3
  show ?thesis by simp
qed

text \<open>
  The other case of the \<open>select\<close> of \<open>run\<close>: with the same events as in the
  counterexample of C4 the runtime may as well take the cancellation, and then no
  command is called.
\<close>

lemma select_may_take_cancellation:
  "map_option (\<lambda>st. (commands st, runAt st))
     (running (request ''list'')
        (world [Run 0 answers, Signal, Main 0, ReadyCB, Run 0 answers] None))
     = Some ([], RunSend (Some ContextCanceled))"
  by (simp add: concrete commands_def)

section \<open>Closing the connection\<close>










end
